theory Spec2Isabelle
  imports Main
begin

section \<open>Data model\<close>

text \<open>
  The offline-first task client: \<open>TaskService\<close> (the record service) and
  \<open>SyncService\<close> (the sync engine) over a \<open>Database\<close> holding the task table
  and the sync queue. Asynchronous calls are awaited one after the other, so every
  method is a function from the state of the stores to a result and a new state.
\<close>

datatype SyncStatus = Pending | Synced | Error

datatype Operation = Create | Update | Delete

text \<open>The interface \<open>Task\<close>. Timestamps are ISO strings; the field \<open>id\<close> is \<open>id_task\<close>.\<close>

record Task =
  id_task :: string
  title :: string
  description :: string
  completed :: bool
  isDeleted :: bool
  createdAt :: string
  updatedAt :: string
  syncStatus :: SyncStatus
  lastSyncedAt :: "string option"
  serverId :: "string option"

text \<open>\<open>Partial<Task>\<close>: every field may be absent (\<open>None\<close>).\<close>

record PartialTask =
  p_id :: "string option"
  p_title :: "string option"
  p_description :: "string option"
  p_completed :: "bool option"
  p_isDeleted :: "bool option"
  p_createdAt :: "string option"
  p_updatedAt :: "string option"
  p_syncStatus :: "SyncStatus option"
  p_lastSyncedAt :: "string option option"
  p_serverId :: "string option option"

definition no_fields :: PartialTask where
  "no_fields = \<lparr>p_id = None, p_title = None, p_description = None, p_completed = None,
     p_isDeleted = None, p_createdAt = None, p_updatedAt = None, p_syncStatus = None,
     p_lastSyncedAt = None, p_serverId = None\<rparr>"

text \<open>A whole \<open>Task\<close> passed where a \<open>Partial<Task>\<close> is expected.\<close>

definition as_partial :: "Task \<Rightarrow> PartialTask" where
  "as_partial t = \<lparr>p_id = Some (id_task t), p_title = Some (title t),
     p_description = Some (description t), p_completed = Some (completed t),
     p_isDeleted = Some (isDeleted t), p_createdAt = Some (createdAt t),
     p_updatedAt = Some (updatedAt t), p_syncStatus = Some (syncStatus t),
     p_lastSyncedAt = Some (lastSyncedAt t), p_serverId = Some (serverId t)\<rparr>"

text \<open>The object spread \<open>{...task, ...updates}\<close>: a field of \<open>updates\<close> wins when present.\<close>

definition spread :: "Task \<Rightarrow> PartialTask \<Rightarrow> Task" where
  "spread t u = \<lparr>
     id_task = (case p_id u of None \<Rightarrow> id_task t | Some v \<Rightarrow> v),
     title = (case p_title u of None \<Rightarrow> title t | Some v \<Rightarrow> v),
     description = (case p_description u of None \<Rightarrow> description t | Some v \<Rightarrow> v),
     completed = (case p_completed u of None \<Rightarrow> completed t | Some v \<Rightarrow> v),
     isDeleted = (case p_isDeleted u of None \<Rightarrow> isDeleted t | Some v \<Rightarrow> v),
     createdAt = (case p_createdAt u of None \<Rightarrow> createdAt t | Some v \<Rightarrow> v),
     updatedAt = (case p_updatedAt u of None \<Rightarrow> updatedAt t | Some v \<Rightarrow> v),
     syncStatus = (case p_syncStatus u of None \<Rightarrow> syncStatus t | Some v \<Rightarrow> v),
     lastSyncedAt = (case p_lastSyncedAt u of None \<Rightarrow> lastSyncedAt t | Some v \<Rightarrow> v),
     serverId = (case p_serverId u of None \<Rightarrow> serverId t | Some v \<Rightarrow> v)\<rparr>"

text \<open>
  The interface \<open>SyncQueueItem\<close>. The field \<open>data\<close> holds \<open>JSON.stringify\<close> of the
  snapshot and is read back with \<open>JSON.parse\<close>; the model keeps the snapshot itself.
  \<open>addToSyncQueue\<close> writes no \<open>lastError\<close>, which is \<open>None\<close> here.
\<close>

record SyncQueueItem =
  id_item :: string
  taskId :: string
  operation :: Operation
  data :: PartialTask
  retryCount :: nat
  lastError :: "string option"
  createdAt_item :: string

text \<open>One entry of \<open>BatchSyncRequest.items\<close>.\<close>

record SyncRequestItem =
  taskId_req :: string
  operation_req :: Operation
  data_req :: PartialTask

type_synonym BatchSyncRequest = "SyncRequestItem list"

text \<open>One entry of \<open>BatchSyncResponse.results\<close>.\<close>

record BatchSyncResult =
  taskId_res :: string
  success :: bool
  serverData :: "PartialTask option"
  error_res :: "string option"

type_synonym BatchSyncResponse = "BatchSyncResult list"

record SyncResult =
  successCount :: nat
  errorCount :: nat
  total :: nat

section \<open>Stores and environment\<close>

text \<open>
  The state: the task table, the sync queue in insertion order, the batch-sync
  requests posted so far, and how many times the clock and the identifier generator
  have been read.
\<close>

record world =
  tasks :: "(string \<times> Task) list"
  sync_queue :: "SyncQueueItem list"
  posted :: "BatchSyncRequest list"
  dates :: nat
  uuids :: nat

text \<open>
  What the program does not decide: \<open>clock n\<close> is the result of the \<open>n\<close>-th
  \<open>new Date().toISOString()\<close>, \<open>randomUUID n\<close> of the \<open>n\<close>-th generated identifier,
  and \<open>axios_post n req\<close> the outcome of the \<open>n\<close>-th batch-sync request: \<open>Inr\<close> the
  response body, \<open>Inl\<close> the message of the error thrown when the transport fails.
\<close>

record env =
  clock :: "nat \<Rightarrow> string"
  randomUUID :: "nat \<Rightarrow> string"
  axios_post :: "nat \<Rightarrow> BatchSyncRequest \<Rightarrow> string + BatchSyncResponse"

definition new_Date :: "env \<Rightarrow> world \<Rightarrow> string \<times> world" where
  "new_Date e w = (clock e (dates w), w\<lparr>dates := Suc (dates w)\<rparr>)"

definition new_UUID :: "env \<Rightarrow> world \<Rightarrow> string \<times> world" where
  "new_UUID e w = (randomUUID e (uuids w), w\<lparr>uuids := Suc (uuids w)\<rparr>)"

subsection \<open>The Database\<close>

text \<open>Modelled from the spec: \<open>Database.getSyncQueueItems\<close> is not among the sources;
  the Queue Store's \<open>listPending() -> [SyncQueueItem]\<close> returns all pending entries.\<close>

definition db_getSyncQueueItems :: "world \<Rightarrow> SyncQueueItem list" where
  "db_getSyncQueueItems w = sync_queue w"

text \<open>Modelled from the spec: \<open>Database.insertSyncQueueItem\<close> is not among the sources;
  the Queue Store's \<open>insert(item)\<close> appends a new queue entry.\<close>

definition db_insertSyncQueueItem :: "SyncQueueItem \<Rightarrow> world \<Rightarrow> world" where
  "db_insertSyncQueueItem item w = w\<lparr>sync_queue := sync_queue w @ [item]\<rparr>"

text \<open>Modelled from the spec: \<open>Database.updateSyncQueueItem\<close> is not among the sources;
  the Queue Store's \<open>updateRetry(id, retryCount, lastError)\<close> rewrites these two
  fields of the entry with that operation id.\<close>

definition db_updateSyncQueueItem :: "string \<Rightarrow> nat \<Rightarrow> string \<Rightarrow> world \<Rightarrow> world" where
  "db_updateSyncQueueItem ident rc err w =
     w\<lparr>sync_queue := map (\<lambda>q. if id_item q = ident
                                then q\<lparr>retryCount := rc, lastError := Some err\<rparr> else q)
                           (sync_queue w)\<rparr>"

text \<open>Modelled from the spec: \<open>Database.removeFromSyncQueue\<close> is not among the sources;
  the Queue Store's \<open>deleteByTaskId(taskId)\<close> deletes the entries of that task.\<close>

definition db_removeFromSyncQueue :: "string \<Rightarrow> world \<Rightarrow> world" where
  "db_removeFromSyncQueue tid w =
     w\<lparr>sync_queue := filter (\<lambda>q. taskId q \<noteq> tid) (sync_queue w)\<rparr>"

text \<open>Modelled from the spec: \<open>Database.getTaskById\<close> is not among the sources;
  the Record Store is a mapping of task id to task record with
  \<open>getById(id) -> Task|absent\<close>.\<close>

definition db_getTaskById :: "string \<Rightarrow> world \<Rightarrow> Task option" where
  "db_getTaskById ident w = map_of (tasks w) ident"

text \<open>Modelled from the spec: \<open>Database.updateTask\<close> is not among the sources;
  the Record Store's \<open>update(id, Task)\<close> replaces the record stored under that id.\<close>

definition db_updateTask :: "string \<Rightarrow> Task \<Rightarrow> world \<Rightarrow> world" where
  "db_updateTask ident t w =
     w\<lparr>tasks := map (\<lambda>(k, v). if k = ident then (k, t) else (k, v)) (tasks w)\<rparr>"

text \<open>Modelled from the spec: \<open>Database.insertTask\<close> is not among the sources;
  the Record Store's write of a new record under its id.\<close>

definition db_insertTask :: "Task \<Rightarrow> world \<Rightarrow> world" where
  "db_insertTask t w = w\<lparr>tasks := tasks w @ [(id_task t, t)]\<rparr>"

text \<open>Modelled from the spec: \<open>Database.getAllTasks\<close> is not among the sources;
  the read of every record of the Record Store.\<close>

definition db_getAllTasks :: "world \<Rightarrow> Task list" where
  "db_getAllTasks w = map snd (tasks w)"

section \<open>SyncService.addToSyncQueue and the TaskService\<close>

definition addToSyncQueue :: "env \<Rightarrow> string \<Rightarrow> Operation \<Rightarrow> PartialTask \<Rightarrow> world \<Rightarrow> world" where
  "addToSyncQueue e tid op d w =
     (let (uuid, w1) = new_UUID e w;
          (created, w2) = new_Date e w1;
          queueItem = \<lparr>id_item = uuid, taskId = tid, operation = op, data = d,
                       retryCount = 0, lastError = None, createdAt_item = created\<rparr>
      in db_insertSyncQueueItem queueItem w2)"

definition createTask :: "env \<Rightarrow> PartialTask \<Rightarrow> world \<Rightarrow> Task \<times> world" where
  "createTask e taskData w =
     (let (now, w1) = new_Date e w;
          (uuid, w2) = new_UUID e w1;
          task = \<lparr>id_task = uuid,
                  title = (case p_title taskData of None \<Rightarrow> ''Untitled Task''
                           | Some v \<Rightarrow> if v = [] then ''Untitled Task'' else v),
                  description = (case p_description taskData of None \<Rightarrow> [] | Some v \<Rightarrow> v),
                  completed = False, isDeleted = False, createdAt = now, updatedAt = now,
                  syncStatus = Pending, lastSyncedAt = None, serverId = None\<rparr>;
          w3 = db_insertTask task w2;
          w4 = addToSyncQueue e (id_task task) Create (as_partial task) w3
      in (task, w4))"

definition updateTask :: "env \<Rightarrow> string \<Rightarrow> PartialTask \<Rightarrow> world \<Rightarrow> Task option \<times> world" where
  "updateTask e ident updates w =
     (case db_getTaskById ident w of
        None \<Rightarrow> (None, w)
      | Some task \<Rightarrow>
          if isDeleted task then (None, w)
          else
            (let (now, w1) = new_Date e w;
                 updated = (spread task updates)\<lparr>updatedAt := now, syncStatus := Pending\<rparr>;
                 w2 = db_updateTask ident updated w1;
                 w3 = addToSyncQueue e ident Update (as_partial updated) w2
             in (Some updated, w3)))"

definition deleteTask :: "env \<Rightarrow> string \<Rightarrow> world \<Rightarrow> bool \<times> world" where
  "deleteTask e ident w =
     (case db_getTaskById ident w of
        None \<Rightarrow> (False, w)
      | Some task \<Rightarrow>
          if isDeleted task then (False, w)
          else
            (let (now, w1) = new_Date e w;
                 updated = task\<lparr>isDeleted := True, updatedAt := now, syncStatus := Pending\<rparr>;
                 w2 = db_updateTask ident updated w1;
                 w3 = addToSyncQueue e ident Delete (as_partial updated) w2
             in (True, w3)))"

definition getTask :: "string \<Rightarrow> world \<Rightarrow> Task option" where
  "getTask ident w =
     (case db_getTaskById ident w of
        None \<Rightarrow> None
      | Some task \<Rightarrow> if isDeleted task then None else Some task)"

definition getAllTasks :: "world \<Rightarrow> Task list" where
  "getAllTasks w = filter (\<lambda>t. \<not> isDeleted t) (db_getAllTasks w)"

section \<open>SyncService\<close>

subsection \<open>The constructor: the batch size\<close>

text \<open>
  A JavaScript number that is an integer or \<open>NaN\<close>, as \<open>parseInt\<close> returns.
\<close>

datatype number = NaN | Num int

definition is_space :: "char \<Rightarrow> bool" where
  "is_space c = (c \<in> set [CHR '' '', CHR 0x09, CHR 0x0A, CHR 0x0B, CHR 0x0C, CHR 0x0D])"

definition is_digit :: "char \<Rightarrow> bool" where
  "is_digit c = (c \<in> set ''0123456789'')"

definition digit_val :: "char \<Rightarrow> nat" where
  "digit_val c = of_char c - 48"

text \<open>
  \<open>parseInt(s, 10)\<close> on ASCII input: leading white space is skipped, a sign is read,
  then the longest run of decimal digits; no digit gives \<open>NaN\<close>.
\<close>

definition parseInt :: "string \<Rightarrow> number" where
  "parseInt s =
     (let t = dropWhile is_space s;
          neg = (t \<noteq> [] \<and> hd t = CHR ''-'');
          u = (if t \<noteq> [] \<and> (hd t = CHR ''-'' \<or> hd t = CHR ''+'') then tl t else t);
          ds = takeWhile is_digit u;
          v = int (foldl (\<lambda>a c. 10 * a + digit_val c) 0 ds)
      in if ds = [] then NaN else Num (if neg then - v else v))"

text \<open>
  \<open>this.batchSize = parseInt(process.env.SYNC_BATCH_SIZE || '10', 10)\<close>: an unset or
  empty variable is falsy.
\<close>

definition batchSize_of :: "string option \<Rightarrow> number" where
  "batchSize_of SYNC_BATCH_SIZE =
     parseInt (case SYNC_BATCH_SIZE of None \<Rightarrow> ''10''
               | Some s \<Rightarrow> if s = [] then ''10'' else s)"

subsection \<open>processBatch\<close>

text \<open>
  Builds the request from the items and posts it. The request is recorded in
  \<open>posted\<close> whether or not the transport succeeds.
\<close>

definition request_of :: "SyncQueueItem list \<Rightarrow> BatchSyncRequest" where
  "request_of items =
     map (\<lambda>item. \<lparr>taskId_req = taskId item, operation_req = operation item,
                   data_req = data item\<rparr>) items"

definition processBatch ::
  "env \<Rightarrow> SyncQueueItem list \<Rightarrow> world \<Rightarrow> (string + BatchSyncResponse) \<times> world" where
  "processBatch e items w =
     (let request = request_of items
      in (axios_post e (length (posted w)) request, w\<lparr>posted := posted w @ [request]\<rparr>))"

subsection \<open>resolveConflict\<close>

text \<open>
  \<open>date_ms s\<close> is the time value of \<open>new Date(s)\<close>, \<open>None\<close> for an invalid date
  (\<open>NaN\<close>). \<open>>\<close> on two dates compares the time values and is false when either is
  \<open>NaN\<close>.
\<close>

definition date_gt :: "(string \<Rightarrow> int option) \<Rightarrow> string \<Rightarrow> string \<Rightarrow> bool" where
  "date_gt date_ms a b =
     (case (date_ms a, date_ms b) of (Some x, Some y) \<Rightarrow> y < x | _ \<Rightarrow> False)"

text \<open>
  The method calls neither store; the state is passed through. The line it writes to
  the console is diagnostic output and not part of the state.
\<close>

definition resolveConflict ::
  "(string \<Rightarrow> int option) \<Rightarrow> Task \<Rightarrow> Task \<Rightarrow> world \<Rightarrow> Task \<times> world" where
  "resolveConflict date_ms localTask serverTask w =
     (if date_gt date_ms (updatedAt localTask) (updatedAt serverTask)
      then (localTask, w) else (serverTask, w))"

subsection \<open>updateSyncStatus and handleSyncError\<close>

text \<open>
  \<open>status\<close> is \<open>'synced' | 'error'\<close> in the source. \<open>status_updates\<close> is the object
  \<open>updates\<close> the method builds; \<open>serverData?.id\<close> is tested for truthiness: an absent
  or empty id sets no \<open>serverId\<close>.
\<close>

definition status_updates :: "string \<Rightarrow> SyncStatus \<Rightarrow> PartialTask option \<Rightarrow> PartialTask" where
  "status_updates now status sd =
     (let updates = no_fields\<lparr>p_syncStatus := Some status, p_lastSyncedAt := Some (Some now)\<rparr>
      in case sd of
           None \<Rightarrow> updates
         | Some d \<Rightarrow> (case p_id d of
                        None \<Rightarrow> updates
                      | Some i \<Rightarrow> if i = [] then updates
                                  else updates\<lparr>p_serverId := Some (Some i)\<rparr>))"

definition updateSyncStatus ::
  "env \<Rightarrow> string \<Rightarrow> SyncStatus \<Rightarrow> PartialTask option \<Rightarrow> world \<Rightarrow> world" where
  "updateSyncStatus e tid status sd w =
     (let (now, w1) = new_Date e w;
          updates = status_updates now status sd;
          (r, w2) = updateTask e tid updates w1
      in if status = Synced then db_removeFromSyncQueue tid w2 else w2)"

text \<open>
  \<open>item\<close> is the object read from the queue at the start of \<open>sync\<close>; the method
  increments its \<open>retryCount\<close> in place, so the changed item is returned with the state.
\<close>

definition handleSyncError ::
  "env \<Rightarrow> SyncQueueItem \<Rightarrow> string \<Rightarrow> world \<Rightarrow> SyncQueueItem \<times> world" where
  "handleSyncError e item msg w =
     (let item' = item\<lparr>retryCount := retryCount item + 1\<rparr>;
          w1 = db_updateSyncQueueItem (id_item item') (retryCount item') msg w
      in if retryCount item' > 3
         then (let w2 = updateSyncStatus e (taskId item') Error None w1;
                   w3 = db_removeFromSyncQueue (taskId item') w2
               in (item', w3))
         else (item', w1))"

text \<open>The queue entry \<open>q\<close> after \<open>handleSyncError\<close> has written the new
  \<open>retryCount\<close> and the message for \<open>item\<close>.\<close>

definition bump :: "SyncQueueItem \<Rightarrow> string \<Rightarrow> SyncQueueItem \<Rightarrow> SyncQueueItem" where
  "bump item msg q =
     (if id_item q = id_item item
      then q\<lparr>retryCount := retryCount item + 1, lastError := Some msg\<rparr> else q)"

text \<open>The same after the \<open>catch\<close> branch of \<open>sync\<close> has handled the items of
  \<open>batch\<close> in order.\<close>

definition bump_all :: "SyncQueueItem list \<Rightarrow> string \<Rightarrow> SyncQueueItem \<Rightarrow> SyncQueueItem" where
  "bump_all batch msg q = fold (\<lambda>it. bump it msg) batch q"

text \<open>A task is abandoned by a failed batch when one of its items in the batch
  exceeds the retry ceiling: \<open>item.retryCount > 3\<close> after the increment.\<close>

definition abandoned :: "SyncQueueItem list \<Rightarrow> string \<Rightarrow> bool" where
  "abandoned batch tid = (\<exists>it \<in> set batch. 3 < retryCount it + 1 \<and> taskId it = tid)"

subsection \<open>sync\<close>

text \<open>\<open>batch.find(p)\<close> returns the first item satisfying \<open>p\<close>; \<open>mutate_found\<close> is the
  batch after that object has been changed in place.\<close>

fun mutate_found :: "('a \<Rightarrow> bool) \<Rightarrow> 'a \<Rightarrow> 'a list \<Rightarrow> 'a list" where
  "mutate_found p y [] = []"
| "mutate_found p y (x # xs) = (if p x then y # xs else x # mutate_found p y xs)"

text \<open>\<open>res.error || 'Sync error'\<close>.\<close>

definition error_message :: "BatchSyncResult \<Rightarrow> string" where
  "error_message res =
     (case error_res res of None \<Rightarrow> ''Sync error''
      | Some m \<Rightarrow> if m = [] then ''Sync error'' else m)"

text \<open>The loop over \<open>response.results\<close>; the state is the batch, the two counters and
  the stores.\<close>

fun process_results ::
  "env \<Rightarrow> BatchSyncResult list \<Rightarrow> SyncQueueItem list \<times> nat \<times> nat \<times> world
     \<Rightarrow> SyncQueueItem list \<times> nat \<times> nat \<times> world" where
  "process_results e [] st = st"
| "process_results e (res # rest) (batch, sc, ec, w) =
     (if success res
      then process_results e rest
             (batch, sc + 1, ec, updateSyncStatus e (taskId_res res) Synced (serverData res) w)
      else (case find (\<lambda>it. taskId it = taskId_res res) batch of
              Some item \<Rightarrow>
                (let (item', w') = handleSyncError e item (error_message res) w
                 in process_results e rest
                      (mutate_found (\<lambda>it. taskId it = taskId_res res) item' batch,
                       sc, ec + 1, w'))
            | None \<Rightarrow> process_results e rest (batch, sc, ec + 1, w)))"

text \<open>The \<open>catch\<close> branch: "mark whole batch as error".\<close>

fun mark_batch_error :: "env \<Rightarrow> string \<Rightarrow> SyncQueueItem list \<Rightarrow> world \<Rightarrow> world" where
  "mark_batch_error e msg [] w = w"
| "mark_batch_error e msg (item # rest) w =
     mark_batch_error e msg rest (snd (handleSyncError e item msg w))"

text \<open>The body of the \<open>for\<close> loop of \<open>sync\<close> for one batch.\<close>

definition sync_batch ::
  "env \<Rightarrow> SyncQueueItem list \<Rightarrow> nat \<times> nat \<times> world \<Rightarrow> nat \<times> nat \<times> world" where
  "sync_batch e batch st =
     (case st of (sc, ec, w) \<Rightarrow>
        (case processBatch e batch w of
           (Inr response, w1) \<Rightarrow> snd (process_results e response (batch, sc, ec, w1))
         | (Inl msg, w1) \<Rightarrow> (sc, ec + length batch, mark_batch_error e msg batch w1)))"

text \<open>\<open>queueItems.slice(i, i + batchSize)\<close> for \<open>0 \<le> i\<close> and \<open>0 \<le> batchSize\<close>.\<close>

definition slice :: "'a list \<Rightarrow> nat \<Rightarrow> nat \<Rightarrow> 'a list" where
  "slice xs i j = take (j - i) (drop i xs)"

text \<open>
  \<open>for (let i = 0; i < queueItems.length; i += batchSize)\<close> with a batch size that is
  a natural number. With batch size 0 and \<open>i\<close> below the length, \<open>i\<close> never advances
  and the loop does not return: the value is \<open>None\<close>.
\<close>

function sync_loop ::
  "env \<Rightarrow> nat \<Rightarrow> SyncQueueItem list \<Rightarrow> nat \<Rightarrow> nat \<times> nat \<times> world
     \<Rightarrow> (nat \<times> nat \<times> world) option" where
  "sync_loop e b queueItems i st =
     (if i < length queueItems
      then (if b = 0 then None
            else sync_loop e b queueItems (i + b) (sync_batch e (slice queueItems i (i + b)) st))
      else Some st)"
  by pat_completeness auto
termination
  by (relation "measure (\<lambda>(e, b, queueItems, i, st). length queueItems - i)") auto

declare sync_loop.simps [simp del]

text \<open>
  \<open>sync()\<close> for the batch size the constructor stored. A negative batch size never
  brings \<open>i\<close> to the length of a non-empty queue, so the call does not return
  (\<open>None\<close>). With \<open>NaN\<close> the first slice \<open>slice(0, NaN)\<close> is empty, and after it
  \<open>i\<close> is \<open>NaN\<close>, which ends the loop.
\<close>

definition sync :: "env \<Rightarrow> number \<Rightarrow> world \<Rightarrow> (SyncResult \<times> world) option" where
  "sync e batchSize w =
     (let queueItems = db_getSyncQueueItems w;
          r = (case batchSize of
                 Num b \<Rightarrow>
                   if 0 \<le> b then sync_loop e (nat b) queueItems 0 (0, 0, w)
                   else if queueItems = [] then Some (0, 0, w) else None
               | NaN \<Rightarrow>
                   if queueItems = [] then Some (0, 0, w)
                   else Some (sync_batch e [] (0, 0, w)))
      in map_option (\<lambda>(sc, ec, w').
           (\<lparr>successCount = sc, errorCount = ec, total = length queueItems\<rparr>, w')) r)"

subsection \<open>checkConnectivity\<close>

text \<open>
  How a call of \<open>axios.get\<close> ends, which the program does not decide: the promise is
  fulfilled, or it is rejected with an error of some message (a network error, a
  status that axios refuses, axios's own timeout error); in either case after some
  number of milliseconds.
\<close>

datatype get_outcome = Fulfilled nat | Rejected nat string

text \<open>
  \<open>axios_get url timeout\<close> is the outcome of \<open>axios.get(url, { timeout })\<close>. The
  method compares no times itself: it hands the timeout to axios, returns true when
  the promise is fulfilled and false from the \<open>catch\<close> when it is rejected. The result
  is \<open>Inr\<close> the boolean returned, \<open>Inl\<close> an error thrown to the caller.
\<close>

definition checkConnectivity :: "(string \<Rightarrow> nat \<Rightarrow> get_outcome) \<Rightarrow> string \<Rightarrow> string + bool" where
  "checkConnectivity axios_get apiUrl =
     (case axios_get (apiUrl @ ''/health'') 5000 of
        Fulfilled ms \<Rightarrow> Inr True
      | Rejected ms err \<Rightarrow> Inr False)"

section \<open>Relations between states of the queue\<close>



section \<open>Example states\<close>

definition task1 :: Task where
  "task1 = \<lparr>id_task = ''t1'', title = ''Buy milk'', description = [], completed = False,
     isDeleted = False, createdAt = ''2024-01-01T00:00:00.000Z'',
     updatedAt = ''2024-01-01T00:00:00.000Z'', syncStatus = Pending,
     lastSyncedAt = None, serverId = None\<rparr>"

definition task1_server :: Task where
  "task1_server = task1\<lparr>title := ''Buy bread'', updatedAt := ''2024-01-02T00:00:00.000Z'',
     syncStatus := Synced\<rparr>"

definition task2 :: Task where
  "task2 = task1\<lparr>id_task := ''t2'', title := ''Old note'', isDeleted := True\<rparr>"

definition date_ms_ex :: "string \<Rightarrow> int option" where
  "date_ms_ex s =
     (if s = ''2024-01-01T00:00:00.000Z'' then Some 1704067200000
      else if s = ''2024-01-02T00:00:00.000Z'' then Some 1704153600000
      else None)"

definition item1 :: SyncQueueItem where
  "item1 = \<lparr>id_item = ''q1'', taskId = ''t1'', operation = Create, data = as_partial task1,
     retryCount = 0, lastError = None, createdAt_item = ''2024-01-01T00:00:00.000Z''\<rparr>"

definition item2 :: SyncQueueItem where
  "item2 = \<lparr>id_item = ''q2'', taskId = ''t1'', operation = Update, data = as_partial task1,
     retryCount = 0, lastError = None, createdAt_item = ''2024-01-01T00:00:01.000Z''\<rparr>"

definition item3 :: SyncQueueItem where
  "item3 = \<lparr>id_item = ''q3'', taskId = ''t2'', operation = Delete, data = as_partial task2,
     retryCount = 0, lastError = None, createdAt_item = ''2024-01-01T00:00:02.000Z''\<rparr>"

definition world0 :: world where
  "world0 = \<lparr>tasks = [], sync_queue = [], posted = [], dates = 0, uuids = 0\<rparr>"

definition world1 :: world where
  "world1 = \<lparr>tasks = [(''t1'', task1), (''t2'', task2)], sync_queue = [item1],
     posted = [], dates = 0, uuids = 0\<rparr>"

definition world3 :: world where
  "world3 = world1\<lparr>sync_queue := [item1, item2, item3]\<rparr>"

text \<open>The demo endpoint \<open>POST /batch\<close> of the sync router: every item succeeds.\<close>

definition batch_endpoint :: "BatchSyncRequest \<Rightarrow> BatchSyncResponse" where
  "batch_endpoint items =
     map (\<lambda>it. \<lparr>taskId_res = taskId_req it, success = True,
                 serverData = Some ((data_req it)\<lparr>p_id := Some (taskId_req it)\<rparr>),
                 error_res = None\<rparr>) items"

definition env_up :: env where
  "env_up = \<lparr>clock = (\<lambda>n. ''2024-01-03T00:00:00.000Z''), randomUUID = (\<lambda>n. ''u''),
     axios_post = (\<lambda>n req. Inr (batch_endpoint req))\<rparr>"

definition env_down :: env where
  "env_down = \<lparr>clock = (\<lambda>n. ''2024-01-03T00:00:00.000Z''), randomUUID = (\<lambda>n. ''u''),
     axios_post = (\<lambda>n req. Inl ''Network Error'')\<rparr>"

text \<open>Three health endpoints as axios sees them: one answers at once, one is given up
  by axios after the timeout, one is fulfilled after six seconds.\<close>

definition health_quick :: "string \<Rightarrow> nat \<Rightarrow> get_outcome" where
  "health_quick url timeout = Fulfilled 12"

definition health_timed_out :: "string \<Rightarrow> nat \<Rightarrow> get_outcome" where
  "health_timed_out url timeout = Rejected timeout ''timeout of 5000ms exceeded''"

definition health_slow :: "string \<Rightarrow> nat \<Rightarrow> get_outcome" where
  "health_slow url timeout = Fulfilled 6000"



definition world1_retry3 :: world where
  "world1_retry3 = world1\<lparr>sync_queue := [item1\<lparr>retryCount := 3\<rparr>]\<rparr>"

section \<open>Basic facts about the stores\<close>

lemma db_getTaskById_db_updateTask:
  "db_getTaskById i w = Some t \<Longrightarrow> db_getTaskById i (db_updateTask i t' w) = Some t'"
proof -
  have "map_of xs i = Some t \<Longrightarrow>
        map_of (map (\<lambda>(k, v). if k = i then (k, t') else (k, v)) xs) i = Some t'" for xs
    by (induction xs) (auto split: if_splits)
  then show "db_getTaskById i w = Some t \<Longrightarrow> db_getTaskById i (db_updateTask i t' w) = Some t'"
    by (simp add: db_getTaskById_def db_updateTask_def)
qed

lemma db_getTaskById_addToSyncQueue:
  "db_getTaskById i (addToSyncQueue e tid op d w) = db_getTaskById i w"
  by (simp add: addToSyncQueue_def new_UUID_def new_Date_def db_insertSyncQueueItem_def
      db_getTaskById_def)

lemma db_getTaskById_dates:
  "db_getTaskById i (w\<lparr>dates := n\<rparr>) = db_getTaskById i w"
  by (simp add: db_getTaskById_def)

lemma sync_queue_addToSyncQueue:
  "sync_queue (addToSyncQueue e tid op d w) =
     sync_queue w @ [\<lparr>id_item = randomUUID e (uuids w), taskId = tid, operation = op,
        data = d, retryCount = 0, lastError = None, createdAt_item = clock e (dates w)\<rparr>]"
  by (simp add: addToSyncQueue_def new_UUID_def new_Date_def db_insertSyncQueueItem_def)

lemma updateTask_found:
  assumes "db_getTaskById i w = Some t" and "\<not> isDeleted t"
  shows "updateTask e i u w =
     (Some ((spread t u)\<lparr>updatedAt := clock e (dates w), syncStatus := Pending\<rparr>),
      addToSyncQueue e i Update
        (as_partial ((spread t u)\<lparr>updatedAt := clock e (dates w), syncStatus := Pending\<rparr>))
        (db_updateTask i ((spread t u)\<lparr>updatedAt := clock e (dates w), syncStatus := Pending\<rparr>)
           (w\<lparr>dates := Suc (dates w)\<rparr>)))"
  using assms by (simp add: updateTask_def new_Date_def Let_def)

lemma updateTask_absent:
  "db_getTaskById i w = None \<or> (\<exists>t. db_getTaskById i w = Some t \<and> isDeleted t) \<Longrightarrow>
   updateTask e i u w = (None, w)"
  by (auto simp: updateTask_def)

lemma deleteTask_found:
  assumes "db_getTaskById i w = Some t" and "\<not> isDeleted t"
  shows "deleteTask e i w =
     (True,
      addToSyncQueue e i Delete
        (as_partial (t\<lparr>isDeleted := True, updatedAt := clock e (dates w), syncStatus := Pending\<rparr>))
        (db_updateTask i (t\<lparr>isDeleted := True, updatedAt := clock e (dates w), syncStatus := Pending\<rparr>)
           (w\<lparr>dates := Suc (dates w)\<rparr>)))"
  using assms by (simp add: deleteTask_def new_Date_def Let_def)

lemma date_gt_iff:
  "date_gt date_ms a b \<longleftrightarrow> (\<exists>x y. date_ms a = Some x \<and> date_ms b = Some y \<and> y < x)"
  by (auto simp: date_gt_def split: option.splits)

section \<open>Conflict resolution\<close>

text \<open>
  Claim C5. \<open>resolveConflict(local, server)\<close> returns \<open>local\<close> when
  \<open>local.updatedAt\<close> is strictly later than \<open>server.updatedAt\<close> (both are valid dates
  and the local time value is the greater one) and \<open>server\<close> otherwise; equal
  timestamps give the server record; for two different records the result is the
  local one if and only if its timestamp is strictly later. The call always returns
  and leaves the stores as they were.
\<close>

theorem resolveConflict_last_write_wins:
  "snd (resolveConflict date_ms l s w) = w \<and>
   (date_gt date_ms (updatedAt l) (updatedAt s) \<longleftrightarrow>
      (\<exists>x y. date_ms (updatedAt l) = Some x \<and> date_ms (updatedAt s) = Some y \<and> y < x)) \<and>
   (date_gt date_ms (updatedAt l) (updatedAt s) \<longrightarrow> fst (resolveConflict date_ms l s w) = l) \<and>
   (\<not> date_gt date_ms (updatedAt l) (updatedAt s) \<longrightarrow> fst (resolveConflict date_ms l s w) = s) \<and>
   (date_ms (updatedAt l) = date_ms (updatedAt s) \<longrightarrow> fst (resolveConflict date_ms l s w) = s) \<and>
   (l \<noteq> s \<longrightarrow>
      (fst (resolveConflict date_ms l s w) = l \<longleftrightarrow> date_gt date_ms (updatedAt l) (updatedAt s)))"
proof -
  have tie: "date_ms (updatedAt l) = date_ms (updatedAt s) \<Longrightarrow>
             \<not> date_gt date_ms (updatedAt l) (updatedAt s)"
    by (auto simp: date_gt_iff)
  show ?thesis
    using tie by (auto simp: resolveConflict_def date_gt_iff)
qed

theorem resolveConflict_last_write_wins_witness:
  "fst (resolveConflict date_ms_ex task1_server task1 world0) = task1_server \<and>
   fst (resolveConflict date_ms_ex task1 task1_server world0) = task1_server \<and>
   fst (resolveConflict date_ms_ex task1 (task1\<lparr>title := ''x''\<rparr>) world0) = task1\<lparr>title := ''x''\<rparr>"
proof -
  have a: "date_gt date_ms_ex (updatedAt task1_server) (updatedAt task1)"
    by (simp add: date_gt_def date_ms_ex_def task1_server_def task1_def)
  have b: "\<not> date_gt date_ms_ex (updatedAt task1) (updatedAt task1_server)"
    by (simp add: date_gt_def date_ms_ex_def task1_server_def task1_def)
  have c: "date_ms_ex (updatedAt task1) = date_ms_ex (updatedAt (task1\<lparr>title := ''x''\<rparr>))"
    by simp
  from a b c
    resolveConflict_last_write_wins [of date_ms_ex task1_server task1 world0]
    resolveConflict_last_write_wins [of date_ms_ex task1 task1_server world0]
    resolveConflict_last_write_wins [of date_ms_ex task1 "task1\<lparr>title := ''x''\<rparr>" world0]
  show ?thesis by blast
qed

section \<open>Connectivity probe\<close>

text \<open>
  Claim C7, as amended. \<open>checkConnectivity()\<close> always returns a boolean and throws
  nothing. It returns true exactly when the health request, made through axios with
  the timeout option 5000, is fulfilled, and false exactly when that request is
  rejected, whatever the error (axios's timeout error included). How long a
  fulfilled request took plays no part.
\<close>

theorem checkConnectivity_boolean:
  "(\<exists>b. checkConnectivity axios_get apiUrl = Inr b) \<and>
   (checkConnectivity axios_get apiUrl = Inr True \<longleftrightarrow>
      (\<exists>ms. axios_get (apiUrl @ ''/health'') 5000 = Fulfilled ms)) \<and>
   (checkConnectivity axios_get apiUrl = Inr False \<longleftrightarrow>
      (\<exists>ms err. axios_get (apiUrl @ ''/health'') 5000 = Rejected ms err))"
  by (cases "axios_get (apiUrl @ ''/health'') 5000") (auto simp: checkConnectivity_def)

theorem checkConnectivity_boolean_witness:
  "checkConnectivity health_quick ''http://localhost:3000/api'' = Inr True \<and>
   checkConnectivity health_timed_out ''http://localhost:3000/api'' = Inr False"
proof -
  have "\<exists>ms. health_quick (''http://localhost:3000/api'' @ ''/health'') 5000 = Fulfilled ms"
    by (simp add: health_quick_def)
  moreover have "\<exists>ms err. health_timed_out (''http://localhost:3000/api'' @ ''/health'') 5000
      = Rejected ms err"
    by (simp add: health_timed_out_def)
  ultimately show ?thesis
    using checkConnectivity_boolean [of health_quick "''http://localhost:3000/api''"]
      checkConnectivity_boolean [of health_timed_out "''http://localhost:3000/api''"]
    by blast
qed

text \<open>
  Claim C7 as stated fails: a health call that exceeds 5 seconds does not make the
  method return false. When axios fulfils the request after 6000 ms, the method
  returns true.
\<close>

theorem checkConnectivity_slow_call_counterexample:
  "health_slow (''http://localhost:3000/api'' @ ''/health'') 5000 = Fulfilled 6000 \<and>
   (5000::nat) < 6000 \<and>
   checkConnectivity health_slow ''http://localhost:3000/api'' = Inr True"
  by (simp add: checkConnectivity_def health_slow_def)

section \<open>The record service\<close>

text \<open>
  Claim C8. A soft-deleted record is not returned by the read operations: \<open>getTask\<close>
  returns null for it and \<open>getAllTasks\<close> contains no deleted record. Every mutation
  of an existing, not deleted record through the record service (\<open>updateTask\<close>,
  \<open>deleteTask\<close>) stores it with \<open>syncStatus\<close> pending and \<open>updatedAt\<close> the time of the
  call; after \<open>deleteTask\<close> the record is hidden from both reads.
\<close>

theorem soft_delete_hidden_and_mutations_reset:
  "(\<forall>t. db_getTaskById i w = Some t \<and> isDeleted t \<longrightarrow> getTask i w = None) \<and>
   (\<forall>t. getTask i w = Some t \<longrightarrow> \<not> isDeleted t) \<and>
   (\<forall>t \<in> set (getAllTasks w). \<not> isDeleted t) \<and>
   (\<forall>t. db_getTaskById i w = Some t \<and> \<not> isDeleted t \<longrightarrow>
      (\<exists>t' w'. updateTask e i u w = (Some t', w') \<and> db_getTaskById i w' = Some t' \<and>
         syncStatus t' = Pending \<and> updatedAt t' = clock e (dates w))) \<and>
   (\<forall>t. db_getTaskById i w = Some t \<and> \<not> isDeleted t \<longrightarrow>
      (\<exists>t' w'. deleteTask e i w = (True, w') \<and> db_getTaskById i w' = Some t' \<and>
         isDeleted t' \<and> syncStatus t' = Pending \<and> updatedAt t' = clock e (dates w) \<and>
         getTask i w' = None \<and> t' \<notin> set (getAllTasks w')))"
proof (intro conjI allI impI)
  fix t assume "db_getTaskById i w = Some t \<and> isDeleted t"
  then show "getTask i w = None" by (simp add: getTask_def)
next
  fix t assume "getTask i w = Some t"
  then show "\<not> isDeleted t"
    by (auto simp: getTask_def split: option.splits if_splits)
next
  show "\<forall>t \<in> set (getAllTasks w). \<not> isDeleted t" by (simp add: getAllTasks_def)
next
  fix t assume h: "db_getTaskById i w = Some t \<and> \<not> isDeleted t"
  then have g: "db_getTaskById i (w\<lparr>dates := Suc (dates w)\<rparr>) = Some t"
    by (simp add: db_getTaskById_dates)
  show "\<exists>t' w'. updateTask e i u w = (Some t', w') \<and> db_getTaskById i w' = Some t' \<and>
         syncStatus t' = Pending \<and> updatedAt t' = clock e (dates w)"
    using h by (simp add: updateTask_found db_getTaskById_addToSyncQueue
        db_getTaskById_db_updateTask [OF g])
next
  fix t assume h: "db_getTaskById i w = Some t \<and> \<not> isDeleted t"
  then have g: "db_getTaskById i (w\<lparr>dates := Suc (dates w)\<rparr>) = Some t"
    by (simp add: db_getTaskById_dates)
  show "\<exists>t' w'. deleteTask e i w = (True, w') \<and> db_getTaskById i w' = Some t' \<and>
         isDeleted t' \<and> syncStatus t' = Pending \<and> updatedAt t' = clock e (dates w) \<and>
         getTask i w' = None \<and> t' \<notin> set (getAllTasks w')"
    using h by (simp add: deleteTask_found db_getTaskById_addToSyncQueue
        db_getTaskById_db_updateTask [OF g] getTask_def getAllTasks_def)
qed

theorem soft_delete_hidden_and_mutations_reset_witness:
  "getTask ''t2'' world1 = None \<and> task2 \<notin> set (getAllTasks world1) \<and>
   (\<exists>t' w'. updateTask env_up ''t1'' (no_fields\<lparr>p_syncStatus := Some Synced\<rparr>) world1 = (Some t', w') \<and>
      syncStatus t' = Pending \<and> updatedAt t' = ''2024-01-03T00:00:00.000Z'') \<and>
   (\<exists>t' w'. deleteTask env_up ''t1'' world1 = (True, w') \<and> getTask ''t1'' w' = None)"
proof -
  have a: "db_getTaskById ''t2'' world1 = Some task2 \<and> isDeleted task2"
    by (simp add: db_getTaskById_def world1_def task2_def)
  have b: "db_getTaskById ''t1'' world1 = Some task1 \<and> \<not> isDeleted task1"
    by (simp add: db_getTaskById_def world1_def task1_def)
  have c: "isDeleted task2" by (simp add: task2_def)
  have d: "clock env_up (dates world1) = ''2024-01-03T00:00:00.000Z''"
    by (simp add: env_up_def)
  from a b c d
    soft_delete_hidden_and_mutations_reset
      [of "''t2''" world1 env_up "no_fields\<lparr>p_syncStatus := Some Synced\<rparr>"]
    soft_delete_hidden_and_mutations_reset
      [of "''t1''" world1 env_up "no_fields\<lparr>p_syncStatus := Some Synced\<rparr>"]
  show ?thesis by metis
qed

section \<open>Effects on the queue and on the request log\<close>

lemma updateSyncStatus_eq:
  "updateSyncStatus e tid status sd w =
     (let w2 = snd (updateTask e tid (status_updates (clock e (dates w)) status sd)
                      (w\<lparr>dates := Suc (dates w)\<rparr>))
      in if status = Synced then db_removeFromSyncQueue tid w2 else w2)"
  by (simp add: updateSyncStatus_def new_Date_def Let_def split_def)

lemma sync_queue_updateTask:
  "sync_queue (snd (updateTask e i u w)) = sync_queue w \<or>
   (\<exists>q. taskId q = i \<and> retryCount q = 0 \<and> operation q = Update \<and>
        sync_queue (snd (updateTask e i u w)) = sync_queue w @ [q])"
  by (auto simp: updateTask_def new_Date_def Let_def sync_queue_addToSyncQueue
      db_updateTask_def split: option.splits)

lemma posted_addToSyncQueue: "posted (addToSyncQueue e tid op d w) = posted w"
  by (simp add: addToSyncQueue_def new_UUID_def new_Date_def db_insertSyncQueueItem_def)

lemma posted_updateTask: "posted (snd (updateTask e i u w)) = posted w"
  by (auto simp: updateTask_def new_Date_def Let_def posted_addToSyncQueue
      db_updateTask_def split: option.splits)

lemma posted_updateSyncStatus: "posted (updateSyncStatus e tid status sd w) = posted w"
  by (simp add: updateSyncStatus_eq Let_def db_removeFromSyncQueue_def posted_updateTask)

lemma sync_queue_updateSyncStatus_Synced:
  "sync_queue (updateSyncStatus e tid Synced sd w) =
     filter (\<lambda>q. taskId q \<noteq> tid) (sync_queue w)"
proof -
  let ?w1 = "w\<lparr>dates := Suc (dates w)\<rparr>"
  let ?u = "status_updates (clock e (dates w)) Synced sd"
  have "filter (\<lambda>q. taskId q \<noteq> tid) (sync_queue (snd (updateTask e tid ?u ?w1))) =
        filter (\<lambda>q. taskId q \<noteq> tid) (sync_queue ?w1)"
    using sync_queue_updateTask [of e tid ?u ?w1] by auto
  then show ?thesis
    by (simp add: updateSyncStatus_eq Let_def db_removeFromSyncQueue_def)
qed

lemma sync_queue_updateSyncStatus_Error:
  "sync_queue (updateSyncStatus e tid Error sd w) = sync_queue w \<or>
   (\<exists>q. taskId q = tid \<and> retryCount q = 0 \<and> operation q = Update \<and>
        sync_queue (updateSyncStatus e tid Error sd w) = sync_queue w @ [q])"
  using sync_queue_updateTask [of e tid "status_updates (clock e (dates w)) Error sd"
      "w\<lparr>dates := Suc (dates w)\<rparr>"]
  by (simp add: updateSyncStatus_eq Let_def)

lemma taskId_bump [simp]: "taskId (bump item msg q) = taskId q"
  by (simp add: bump_def)

lemma id_item_bump [simp]: "id_item (bump item msg q) = id_item q"
  by (simp add: bump_def)

lemma sync_queue_handleSyncError:
  "sync_queue (snd (handleSyncError e item msg w)) =
     (if 3 < retryCount item + 1
      then filter (\<lambda>q. taskId q \<noteq> taskId item) (map (bump item msg) (sync_queue w))
      else map (bump item msg) (sync_queue w))"
proof -
  let ?w1 = "db_updateSyncQueueItem (id_item item) (retryCount item + 1) msg w"
  have q1: "sync_queue ?w1 = map (bump item msg) (sync_queue w)"
    by (simp add: db_updateSyncQueueItem_def bump_def [abs_def])
  have "filter (\<lambda>q. taskId q \<noteq> taskId item)
          (sync_queue (updateSyncStatus e (taskId item) Error None ?w1)) =
        filter (\<lambda>q. taskId q \<noteq> taskId item) (sync_queue ?w1)"
    using sync_queue_updateSyncStatus_Error [of e "taskId item" None ?w1] by auto
  then show ?thesis
    using q1 by (simp add: handleSyncError_def Let_def db_removeFromSyncQueue_def)
qed


lemma posted_handleSyncError: "posted (snd (handleSyncError e item msg w)) = posted w"
  by (simp add: handleSyncError_def Let_def db_removeFromSyncQueue_def
      posted_updateSyncStatus db_updateSyncQueueItem_def)

lemma posted_process_results:
  "posted (snd (snd (snd (process_results e rs st)))) = posted (snd (snd (snd st)))"
proof (induction rs arbitrary: st)
  case Nil
  then show ?case by simp
next
  case (Cons res rest)
  obtain batch sc ec w where st: "st = (batch, sc, ec, w)" by (cases st) auto
  show ?case
    by (simp add: st Cons.IH posted_updateSyncStatus split_def posted_handleSyncError
        Let_def split: option.splits)
qed

lemma posted_mark_batch_error: "posted (mark_batch_error e msg batch w) = posted w"
  by (induction batch arbitrary: w) (simp_all add: posted_handleSyncError)

lemma posted_sync_batch:
  "posted (snd (snd (sync_batch e batch st))) = posted (snd (snd st)) @ [request_of batch]"
proof -
  obtain sc ec w where st: "st = (sc, ec, w)" by (cases st) auto
  show ?thesis
  proof (cases "axios_post e (length (posted w)) (request_of batch)")
    case (Inl msg)
    then show ?thesis
      by (simp add: st sync_batch_def processBatch_def Let_def posted_mark_batch_error)
  next
    case (Inr response)
    then show ?thesis
      using posted_process_results
        [of e response "(batch, sc, ec, w\<lparr>posted := posted w @ [request_of batch]\<rparr>)"]
      by (simp add: st sync_batch_def processBatch_def Let_def)
  qed
qed

section \<open>Batching\<close>

lemma ceil_bounds:
  assumes "0 < (b::nat)"
  shows "n \<le> ((n + b - 1) div b) * b \<and> ((n + b - 1) div b) * b < n + b"
proof -
  define q where "q = (n + b - 1) div b"
  define r where "r = (n + b - 1) mod b"
  have e: "q * b + r = n + b - 1" unfolding q_def r_def by simp
  have r: "r < b" unfolding r_def using assms by simp
  from e r assms have "n \<le> q * b" by arith
  moreover from e r assms have "q * b < n + b" by arith
  ultimately show ?thesis unfolding q_def by simp
qed

lemma batches_arith:
  assumes "i < n" and "0 < (b::nat)"
  shows "Suc ((n - (i + b) + b - 1) div b) = (n - i + b - 1) div b"
proof (cases "i + b \<le> n")
  case True
  define k where "k = n - (i + b) + b - 1"
  have "n - i + b - 1 = k + b" using True assms unfolding k_def by arith
  moreover have "(k + b) div b = Suc (k div b)" using assms by (simp add: div_add_self2)
  ultimately show ?thesis unfolding k_def by presburger
next
  case False
  define m where "m = n - i + b - 1"
  have z: "n - (i + b) = 0" using False by simp
  have lo: "b * 1 \<le> m" using assms unfolding m_def by arith
  have hi: "m < b * Suc 1" using False assms unfolding m_def by arith
  have "m div b = 1" using lo hi by (rule div_nat_eqI)
  moreover have "(b - 1) div b = 0" using assms by simp
  ultimately show ?thesis unfolding m_def z by simp
qed

lemma request_of_append: "request_of (xs @ ys) = request_of xs @ request_of ys"
  by (simp add: request_of_def)

lemma length_request_of [simp]: "length (request_of xs) = length xs"
  by (simp add: request_of_def)

lemma sync_loop_posted:
  "0 < b \<Longrightarrow>
   \<exists>st' reqs. sync_loop e b items i st = Some st' \<and>
      posted (snd (snd st')) = posted (snd (snd st)) @ reqs \<and>
      length reqs = (length items - i + b - 1) div b \<and>
      (\<forall>r \<in> set reqs. length r \<le> b) \<and>
      concat reqs = request_of (drop i items)"
proof (induction e b items i st rule: sync_loop.induct)
  case (1 e b queueItems i st)
  show ?case
  proof (cases "i < length queueItems")
    case False
    then have "sync_loop e b queueItems i st = Some st"
      by (subst sync_loop.simps) simp
    then show ?thesis
      using False "1.prems" by (simp add: request_of_def)
  next
    case True
    let ?batch = "slice queueItems i (i + b)"
    let ?st1 = "sync_batch e ?batch st"
    from "1.prems" have b0: "b \<noteq> 0" by simp
    from "1.IH" [OF True b0 "1.prems"]
    obtain st' reqs where
      run: "sync_loop e b queueItems (i + b) ?st1 = Some st'" and
      post: "posted (snd (snd st')) = posted (snd (snd ?st1)) @ reqs" and
      len: "length reqs = (length queueItems - (i + b) + b - 1) div b" and
      bound: "\<forall>r \<in> set reqs. length r \<le> b" and
      cat: "concat reqs = request_of (drop (i + b) queueItems)"
      by blast
    have step: "sync_loop e b queueItems i st = Some st'"
      using True b0 run by (subst sync_loop.simps) simp
    have p1: "posted (snd (snd st')) = posted (snd (snd st)) @ (request_of ?batch # reqs)"
      using post by (simp add: posted_sync_batch)
    have l1: "length (request_of ?batch # reqs) = (length queueItems - i + b - 1) div b"
      using len batches_arith [OF True "1.prems"] by simp
    have b1: "\<forall>r \<in> set (request_of ?batch # reqs). length r \<le> b"
      using bound by (simp add: slice_def)
    have "drop b (drop i queueItems) = drop (i + b) queueItems"
      by (simp add: add.commute)
    then have "take b (drop i queueItems) @ drop (i + b) queueItems = drop i queueItems"
      by (metis append_take_drop_id)
    then have "drop i queueItems = ?batch @ drop (i + b) queueItems"
      by (simp add: slice_def)
    then have c1: "concat (request_of ?batch # reqs) = request_of (drop i queueItems)"
      using cat by (simp add: request_of_append [symmetric])
    from step p1 l1 b1 c1 show ?thesis by blast
  qed
qed

lemma parseInt_10: "parseInt ''10'' = Num 10"
  by code_simp

text \<open>
  Claim C3. For a pending queue of \<open>N\<close> entries and a positive batch size \<open>b\<close>,
  one call of \<open>sync()\<close> returns, posts exactly \<open>ceil(N/b)\<close> batch-sync requests
  (the number \<open>k\<close> with \<open>N \<le> k * b < N + b\<close>), one after the other, each with at
  most \<open>b\<close> items and together all items in queue order, and reports \<open>total = N\<close>.
  With \<open>SYNC_BATCH_SIZE\<close> unset or empty the batch size is 10.
\<close>

theorem sync_batching:
  "(0 < b \<longrightarrow>
     (\<exists>r w' reqs. sync e (Num b) w = Some (r, w') \<and>
        total r = length (sync_queue w) \<and>
        posted w' = posted w @ reqs \<and>
        length reqs = (length (sync_queue w) + nat b - 1) div nat b \<and>
        length (sync_queue w) \<le> length reqs * nat b \<and>
        length reqs * nat b < length (sync_queue w) + nat b \<and>
        (\<forall>q \<in> set reqs. length q \<le> nat b) \<and>
        concat reqs = request_of (sync_queue w))) \<and>
   batchSize_of None = Num 10 \<and> batchSize_of (Some []) = Num 10"
proof (intro conjI impI)
  assume b: "0 < b"
  then have nb: "0 < nat b" by simp
  from sync_loop_posted [OF nb, of e "sync_queue w" 0 "(0, 0, w)"]
  obtain st' reqs where
    run: "sync_loop e (nat b) (sync_queue w) 0 (0, 0, w) = Some st'" and
    post: "posted (snd (snd st')) = posted w @ reqs" and
    len: "length reqs = (length (sync_queue w) + nat b - 1) div nat b" and
    bound: "\<forall>r \<in> set reqs. length r \<le> nat b" and
    cat: "concat reqs = request_of (sync_queue w)"
    by auto
  obtain sc ec w' where st': "st' = (sc, ec, w')" by (cases st') auto
  have res: "sync e (Num b) w =
          Some (\<lparr>successCount = sc, errorCount = ec, total = length (sync_queue w)\<rparr>, w')"
    using b run st' by (simp add: sync_def db_getSyncQueueItems_def)
  have cb: "length (sync_queue w) \<le> length reqs * nat b \<and>
            length reqs * nat b < length (sync_queue w) + nat b"
    using ceil_bounds [OF nb, of "length (sync_queue w)"] len by simp
  show "\<exists>r w' reqs. sync e (Num b) w = Some (r, w') \<and>
        total r = length (sync_queue w) \<and>
        posted w' = posted w @ reqs \<and>
        length reqs = (length (sync_queue w) + nat b - 1) div nat b \<and>
        length (sync_queue w) \<le> length reqs * nat b \<and>
        length reqs * nat b < length (sync_queue w) + nat b \<and>
        (\<forall>q \<in> set reqs. length q \<le> nat b) \<and>
        concat reqs = request_of (sync_queue w)"
    using res post len bound cat cb st' by auto
next
  show "batchSize_of None = Num 10" by (simp add: batchSize_of_def parseInt_10)
next
  show "batchSize_of (Some []) = Num 10" by (simp add: batchSize_of_def parseInt_10)
qed

theorem sync_batching_witness:
  "(0::int) < 2 \<and>
   (\<exists>r w' reqs. sync env_up (Num 2) world3 = Some (r, w') \<and> total r = 3 \<and>
      posted w' = reqs \<and> length reqs = 2 \<and> (\<forall>q \<in> set reqs. length q \<le> 2))"
proof -
  have n: "length (sync_queue world3) = 3" "posted world3 = []"
    by (simp_all add: world3_def world1_def)
  have h: "(0::int) < 2" by simp
  from sync_batching [of 2 env_up world3] h
  obtain r w' reqs where "sync env_up (Num 2) world3 = Some (r, w')"
    "total r = length (sync_queue world3)" "posted w' = posted world3 @ reqs"
    "length reqs = (length (sync_queue world3) + nat 2 - 1) div nat 2"
    "\<forall>q \<in> set reqs. length q \<le> nat 2"
    by blast
  then show ?thesis using n h by auto
qed

section \<open>Status propagation\<close>

lemma db_getTaskById_db_removeFromSyncQueue:
  "db_getTaskById i (db_removeFromSyncQueue tid w) = db_getTaskById i w"
  by (simp add: db_getTaskById_def db_removeFromSyncQueue_def)

lemma uuids_addToSyncQueue: "uuids (addToSyncQueue e tid op d w) = Suc (uuids w)"
  by (simp add: addToSyncQueue_def new_UUID_def new_Date_def db_insertSyncQueueItem_def)

lemma sync_queue_db_updateTask: "sync_queue (db_updateTask i t w) = sync_queue w"
  by (simp add: db_updateTask_def)

lemma uuids_db_updateTask: "uuids (db_updateTask i t w) = uuids w"
  by (simp add: db_updateTask_def)

lemma dates_db_updateTask: "dates (db_updateTask i t w) = dates w"
  by (simp add: db_updateTask_def)

lemma spread_status_updates:
  "lastSyncedAt (spread t (status_updates now st sd)) = Some now"
  by (simp add: spread_def status_updates_def no_fields_def Let_def split: option.splits)

text \<open>
  Claim C9. For an existing, not deleted task and any \<open>updates\<close>,
  \<open>TaskService.updateTask\<close> stores and returns the record with \<open>syncStatus\<close>
  pending and \<open>updatedAt\<close> the time of the call, whatever \<open>updates\<close> contains, and
  appends a fresh \<open>update\<close> operation to the queue. The same holds when the sync
  engine calls it through \<open>updateSyncStatus\<close>: the record is left pending, with
  \<open>lastSyncedAt\<close> set, a fresh identifier is consumed for the operation enqueued,
  and for a status other than synced that operation is still queued afterwards.
\<close>

theorem updateTask_always_pending_and_enqueues:
  "db_getTaskById i w = Some t \<and> \<not> isDeleted t \<longrightarrow>
     (\<exists>t' w'. updateTask e i u w = (Some t', w') \<and>
        syncStatus t' = Pending \<and> updatedAt t' = clock e (dates w) \<and>
        db_getTaskById i w' = Some t' \<and>
        sync_queue w' = sync_queue w @
          [\<lparr>id_item = randomUUID e (uuids w), taskId = i, operation = Update,
            data = as_partial t', retryCount = 0, lastError = None,
            createdAt_item = clock e (Suc (dates w))\<rparr>]) \<and>
     (\<exists>t'. db_getTaskById i (updateSyncStatus e i st sd w) = Some t' \<and>
        syncStatus t' = Pending \<and> updatedAt t' = clock e (Suc (dates w)) \<and>
        lastSyncedAt t' = Some (clock e (dates w))) \<and>
     uuids (updateSyncStatus e i st sd w) = Suc (uuids w) \<and>
     (st \<noteq> Synced \<longrightarrow>
        (\<exists>q. operation q = Update \<and> taskId q = i \<and> retryCount q = 0 \<and>
           sync_queue (updateSyncStatus e i st sd w) = sync_queue w @ [q]))"
proof (intro impI)
  assume h: "db_getTaskById i w = Some t \<and> \<not> isDeleted t"
  let ?w1 = "w\<lparr>dates := Suc (dates w)\<rparr>"
  have g: "db_getTaskById i ?w1 = Some t"
    using h by (simp add: db_getTaskById_dates)
  have g2: "db_getTaskById i (w\<lparr>dates := Suc (Suc (dates w))\<rparr>) = Some t"
    using h by (simp add: db_getTaskById_def)
  have A: "\<exists>t' w'. updateTask e i u w = (Some t', w') \<and>
        syncStatus t' = Pending \<and> updatedAt t' = clock e (dates w) \<and>
        db_getTaskById i w' = Some t' \<and>
        sync_queue w' = sync_queue w @
          [\<lparr>id_item = randomUUID e (uuids w), taskId = i, operation = Update,
            data = as_partial t', retryCount = 0, lastError = None,
            createdAt_item = clock e (Suc (dates w))\<rparr>]"
    using h by (simp add: updateTask_found db_getTaskById_addToSyncQueue
        db_getTaskById_db_updateTask [OF g] sync_queue_addToSyncQueue
        sync_queue_db_updateTask uuids_db_updateTask dates_db_updateTask)
  let ?u = "status_updates (clock e (dates w)) st sd"
  have ut: "updateTask e i ?u ?w1 =
     (Some ((spread t ?u)\<lparr>updatedAt := clock e (dates ?w1), syncStatus := Pending\<rparr>),
      addToSyncQueue e i Update
        (as_partial ((spread t ?u)\<lparr>updatedAt := clock e (dates ?w1), syncStatus := Pending\<rparr>))
        (db_updateTask i ((spread t ?u)\<lparr>updatedAt := clock e (dates ?w1), syncStatus := Pending\<rparr>)
           (?w1\<lparr>dates := Suc (dates ?w1)\<rparr>)))"
    using g h by (rule_tac updateTask_found) simp_all
  have B: "\<exists>t'. db_getTaskById i (updateSyncStatus e i st sd w) = Some t' \<and>
        syncStatus t' = Pending \<and> updatedAt t' = clock e (Suc (dates w)) \<and>
        lastSyncedAt t' = Some (clock e (dates w))"
    by (simp add: updateSyncStatus_eq Let_def ut db_getTaskById_db_removeFromSyncQueue
        db_getTaskById_addToSyncQueue db_getTaskById_db_updateTask [OF g2]
        spread_status_updates)
  have C: "uuids (updateSyncStatus e i st sd w) = Suc (uuids w)"
    by (simp add: updateSyncStatus_eq Let_def ut db_removeFromSyncQueue_def
        uuids_addToSyncQueue uuids_db_updateTask)
  have D: "st \<noteq> Synced \<longrightarrow>
        (\<exists>q. operation q = Update \<and> taskId q = i \<and> retryCount q = 0 \<and>
           sync_queue (updateSyncStatus e i st sd w) = sync_queue w @ [q])"
    by (simp add: updateSyncStatus_eq Let_def ut sync_queue_addToSyncQueue
        sync_queue_db_updateTask)
  from A B C D show "(\<exists>t' w'. updateTask e i u w = (Some t', w') \<and>
        syncStatus t' = Pending \<and> updatedAt t' = clock e (dates w) \<and>
        db_getTaskById i w' = Some t' \<and>
        sync_queue w' = sync_queue w @
          [\<lparr>id_item = randomUUID e (uuids w), taskId = i, operation = Update,
            data = as_partial t', retryCount = 0, lastError = None,
            createdAt_item = clock e (Suc (dates w))\<rparr>]) \<and>
     (\<exists>t'. db_getTaskById i (updateSyncStatus e i st sd w) = Some t' \<and>
        syncStatus t' = Pending \<and> updatedAt t' = clock e (Suc (dates w)) \<and>
        lastSyncedAt t' = Some (clock e (dates w))) \<and>
     uuids (updateSyncStatus e i st sd w) = Suc (uuids w) \<and>
     (st \<noteq> Synced \<longrightarrow>
        (\<exists>q. operation q = Update \<and> taskId q = i \<and> retryCount q = 0 \<and>
           sync_queue (updateSyncStatus e i st sd w) = sync_queue w @ [q]))"
    by blast
qed

theorem updateTask_always_pending_and_enqueues_witness:
  "(\<exists>t' w'. updateTask env_up ''t1''
        (no_fields\<lparr>p_syncStatus := Some Synced, p_updatedAt := Some ''1999-01-01T00:00:00.000Z''\<rparr>)
        world1 = (Some t', w') \<and>
      syncStatus t' = Pending \<and> updatedAt t' = ''2024-01-03T00:00:00.000Z'' \<and>
      length (sync_queue w') = 2) \<and>
   (\<exists>t'. db_getTaskById ''t1'' (updateSyncStatus env_up ''t1'' Synced None world1) = Some t' \<and>
      syncStatus t' = Pending)"
proof -
  have b: "db_getTaskById ''t1'' world1 = Some task1 \<and> \<not> isDeleted task1"
    by (simp add: db_getTaskById_def world1_def task1_def)
  have d: "clock env_up (dates world1) = ''2024-01-03T00:00:00.000Z''"
    "length (sync_queue world1) = 1"
    by (simp_all add: env_up_def world1_def)
  from b updateTask_always_pending_and_enqueues
      [of "''t1''" world1 task1 env_up
        "no_fields\<lparr>p_syncStatus := Some Synced, p_updatedAt := Some ''1999-01-01T00:00:00.000Z''\<rparr>"
        Synced None]
  have "(\<exists>t' w'. updateTask env_up ''t1''
        (no_fields\<lparr>p_syncStatus := Some Synced, p_updatedAt := Some ''1999-01-01T00:00:00.000Z''\<rparr>)
        world1 = (Some t', w') \<and>
      syncStatus t' = Pending \<and> updatedAt t' = clock env_up (dates world1) \<and>
      (\<exists>q. sync_queue w' = sync_queue world1 @ [q])) \<and>
   (\<exists>t'. db_getTaskById ''t1'' (updateSyncStatus env_up ''t1'' Synced None world1) = Some t' \<and>
      syncStatus t' = Pending)"
    by blast
  then show ?thesis using d by (metis Suc_1 length_append_singleton)
qed

text \<open>
  Claim C1, evaluated. The queue holds one \<open>create\<close> operation for the task
  \<open>t1\<close> and the endpoint reports success for it. After \<open>sync()\<close> the call counts
  one success and no queue entry remains, but the record's \<open>syncStatus\<close> is pending,
  not synced: \<open>updateSyncStatus\<close> writes the status through
  \<open>TaskService.updateTask\<close>, which overwrites it.
\<close>

theorem sync_success_leaves_record_pending:
  "map_option (\<lambda>(r, w'). (successCount r, errorCount r,
       map_option syncStatus (db_getTaskById ''t1'' w'), sync_queue w'))
     (sync env_up (Num 10) world1) = Some (1, 0, Some Pending, [])"
  by code_simp

text \<open>
  Claim C2, evaluated. The queue holds one operation for the task \<open>t1\<close> with
  \<open>retryCount = 3\<close> and the transport fails. The fourth failure deletes the queue
  entry, but the record's \<open>syncStatus\<close> is pending, not error, for the same
  reason.
\<close>

theorem retry_exhausted_leaves_record_pending:
  "map_option (\<lambda>(r, w'). (successCount r, errorCount r,
       map_option syncStatus (db_getTaskById ''t1'' w'), sync_queue w'))
     (sync env_down (Num 10) world1_retry3) = Some (0, 1, Some Pending, [])"
  by code_simp

section \<open>Removal from the queue\<close>

text \<open>
  Claim C10. When an item is confirmed successful, and when an item exceeds the retry
  ceiling, the engine deletes from the queue every entry whose \<open>taskId\<close> is that
  item's \<open>taskId\<close>; the other pending operations of the same task go with it, and
  the entries of other tasks stay.
\<close>

theorem removal_is_by_taskId:
  "sync_queue (updateSyncStatus e tid Synced sd w) =
     filter (\<lambda>q. taskId q \<noteq> tid) (sync_queue w) \<and>
   (\<forall>q \<in> set (sync_queue (updateSyncStatus e tid Synced sd w)). taskId q \<noteq> tid) \<and>
   (3 < retryCount item + 1 \<longrightarrow>
      sync_queue (snd (handleSyncError e item msg w)) =
        filter (\<lambda>q. taskId q \<noteq> taskId item) (map (bump item msg) (sync_queue w)) \<and>
      (\<forall>q \<in> set (sync_queue (snd (handleSyncError e item msg w))). taskId q \<noteq> taskId item))"
  by (simp add: sync_queue_updateSyncStatus_Synced sync_queue_handleSyncError)

theorem removal_is_by_taskId_witness:
  "sync_queue world3 = [item1, item2, item3] \<and> taskId item2 = taskId item1 \<and>
   sync_queue (updateSyncStatus env_up (taskId item1) Synced None world3) = [item3] \<and>
   sync_queue (snd (handleSyncError env_down (item1\<lparr>retryCount := 3\<rparr>) ''Network Error'' world3))
     = [item3]"
proof -
  have h: "3 < retryCount (item1\<lparr>retryCount := 3\<rparr>) + 1" by simp
  have q: "sync_queue world3 = [item1, item2, item3]" by (simp add: world3_def)
  have t: "taskId item1 = ''t1''" "taskId item2 = ''t1''" "taskId item3 = ''t2''"
    "id_item item1 = ''q1''" "id_item item2 = ''q2''" "id_item item3 = ''q3''"
    by (simp_all add: item1_def item2_def item3_def)
  have b: "bump (item1\<lparr>retryCount := 3\<rparr>) ''Network Error'' item3 = item3"
    by (simp add: bump_def t)
  from h removal_is_by_taskId [of env_up "taskId item1" None world3]
    removal_is_by_taskId [of env_down "taskId item1" None world3 "item1\<lparr>retryCount := 3\<rparr>"
      "''Network Error''"]
  show ?thesis by (simp add: q t b)
qed

section \<open>Transport failure of a batch\<close>

lemma taskId_bump_all [simp]: "taskId (bump_all batch msg q) = taskId q"
  unfolding bump_all_def by (induction batch arbitrary: q) simp_all

lemma id_item_bump_all [simp]: "id_item (bump_all batch msg q) = id_item q"
  unfolding bump_all_def by (induction batch arbitrary: q) simp_all

lemma bump_all_Cons: "bump_all (it # rest) msg q = bump_all rest msg (bump it msg q)"
  by (simp add: bump_all_def)

lemma bump_all_Cons_fun: "bump_all (it # rest) msg = (\<lambda>q. bump_all rest msg (bump it msg q))"
  by (rule ext) (simp add: bump_all_def)

lemma bump_all_other:
  "id_item q \<notin> id_item ` set batch \<Longrightarrow> bump_all batch msg q = q"
  unfolding bump_all_def by (induction batch arbitrary: q) (auto simp: bump_def)

lemma bump_all_member:
  "distinct (map id_item batch) \<Longrightarrow> it \<in> set batch \<Longrightarrow> id_item q = id_item it \<Longrightarrow>
   bump_all batch msg q = q\<lparr>retryCount := retryCount it + 1, lastError := Some msg\<rparr>"
proof (induction batch arbitrary: q)
  case Nil
  then show ?case by simp
next
  case (Cons a rest)
  show ?case
  proof (cases "a = it")
    case True
    then have "id_item (bump a msg q) \<notin> id_item ` set rest"
      using Cons.prems by auto
    then have "bump_all rest msg (bump a msg q) = bump a msg q"
      by (rule bump_all_other)
    then show ?thesis
      using True Cons.prems by (simp add: bump_all_Cons bump_def)
  next
    case False
    then have r: "it \<in> set rest" using Cons.prems by simp
    then have "id_item a \<noteq> id_item it" using Cons.prems by auto
    then have "bump a msg q = q" using Cons.prems by (simp add: bump_def)
    then show ?thesis
      using Cons.IH [OF _ r] Cons.prems by (simp add: bump_all_Cons)
  qed
qed

lemma sync_queue_mark_batch_error:
  "sync_queue (mark_batch_error e msg batch w) =
     filter (\<lambda>q. \<not> abandoned batch (taskId q)) (map (bump_all batch msg) (sync_queue w))"
proof (induction batch arbitrary: w)
  case Nil
  then show ?case by (simp add: abandoned_def bump_all_def)
next
  case (Cons it rest)
  let ?w1 = "snd (handleSyncError e it msg w)"
  have ab: "abandoned (it # rest) t \<longleftrightarrow>
            (3 < retryCount it + 1 \<and> t = taskId it) \<or> abandoned rest t" for t
    by (auto simp: abandoned_def)
  have "sync_queue (mark_batch_error e msg (it # rest) w) =
        filter (\<lambda>q. \<not> abandoned rest (taskId q)) (map (bump_all rest msg) (sync_queue ?w1))"
    by (simp add: Cons.IH)
  also have "\<dots> = filter (\<lambda>q. \<not> abandoned (it # rest) (taskId q))
                     (map (bump_all (it # rest) msg) (sync_queue w))"
    by (simp add: sync_queue_handleSyncError filter_map comp_def ab bump_all_Cons_fun)
  finally show ?case .
qed

lemma sync_batch_transport_failure:
  "axios_post e (length (posted w)) (request_of batch) = Inl msg \<Longrightarrow>
   sync_batch e batch (sc, ec, w) =
     (sc, ec + length batch,
      mark_batch_error e msg batch (w\<lparr>posted := posted w @ [request_of batch]\<rparr>))"
  by (simp add: sync_batch_def processBatch_def Let_def)

lemma sync_loop_returns: "0 < b \<Longrightarrow> \<exists>st'. sync_loop e b items i st = Some st'"
  using sync_loop_posted [of b e items i st] by blast

lemma sync_queue_mark_batch_error_rows:
  assumes dq: "distinct (map id_item (sync_queue w))"
    and db: "distinct (map id_item batch)"
    and sub: "set batch \<subseteq> set (sync_queue w)"
  shows "sync_queue (mark_batch_error e msg batch w) =
     map (\<lambda>q. if q \<in> set batch
               then q\<lparr>retryCount := retryCount q + 1, lastError := Some msg\<rparr> else q)
       (filter (\<lambda>q. \<not> abandoned batch (taskId q)) (sync_queue w))"
proof -
  have inj: "inj_on id_item (set (sync_queue w))"
    using dq by (simp add: distinct_map)
  have row: "bump_all batch msg q =
        (if q \<in> set batch
         then q\<lparr>retryCount := retryCount q + 1, lastError := Some msg\<rparr> else q)"
    if q: "q \<in> set (sync_queue w)" for q
  proof (cases "q \<in> set batch")
    case True
    then show ?thesis using bump_all_member [OF db True, of q msg] by simp
  next
    case False
    have "id_item q \<notin> id_item ` set batch"
    proof
      assume "id_item q \<in> id_item ` set batch"
      then obtain it where it: "it \<in> set batch" "id_item it = id_item q" by auto
      then have "it \<in> set (sync_queue w)" using sub by auto
      then have "it = q" using inj q it by (auto dest: inj_onD)
      then show False using it False by simp
    qed
    then show ?thesis using False by (simp add: bump_all_other)
  qed
  have "sync_queue (mark_batch_error e msg batch w) =
        map (bump_all batch msg) (filter (\<lambda>q. \<not> abandoned batch (taskId q)) (sync_queue w))"
    by (simp add: sync_queue_mark_batch_error filter_map comp_def)
  also have "\<dots> = map (\<lambda>q. if q \<in> set batch
               then q\<lparr>retryCount := retryCount q + 1, lastError := Some msg\<rparr> else q)
       (filter (\<lambda>q. \<not> abandoned batch (taskId q)) (sync_queue w))"
    by (rule map_cong) (simp_all add: row)
  finally show ?thesis .
qed

text \<open>
  Claim C4. When the transport of a batch fails as a whole, \<open>handleSyncError\<close> runs
  for every item of the batch, \<open>errorCount\<close> grows by the size of the batch and
  \<open>successCount\<close> stays. In the queue every entry with the id of a batch item gets
  that item's \<open>retryCount\<close> plus one and the error message, and the entries of a
  task are deleted when one of its items in the batch thereby exceeds 3. In
  particular, when the batch consists of entries of the queue, each of them is
  stored with its \<open>retryCount\<close> incremented by exactly one unless its task is
  abandoned. \<open>sync()\<close> does not abort: the loop goes on with the next batch and
  returns.
\<close>

theorem transport_failure_fails_whole_batch:
  "axios_post e (length (posted w)) (request_of batch) = Inl msg \<and>
   w' = mark_batch_error e msg batch (w\<lparr>posted := posted w @ [request_of batch]\<rparr>) \<longrightarrow>
     sync_batch e batch (sc, ec, w) = (sc, ec + length batch, w') \<and>
     sync_queue w' =
       filter (\<lambda>q. \<not> abandoned batch (taskId q)) (map (bump_all batch msg) (sync_queue w)) \<and>
     (distinct (map id_item batch) \<longrightarrow>
        (\<forall>it \<in> set batch. \<forall>q. id_item q = id_item it \<longrightarrow>
           bump_all batch msg q = q\<lparr>retryCount := retryCount it + 1, lastError := Some msg\<rparr>)) \<and>
     (distinct (map id_item (sync_queue w)) \<and> distinct (map id_item batch) \<and>
      set batch \<subseteq> set (sync_queue w) \<longrightarrow>
        sync_queue w' =
          map (\<lambda>q. if q \<in> set batch
                    then q\<lparr>retryCount := retryCount q + 1, lastError := Some msg\<rparr> else q)
            (filter (\<lambda>q. \<not> abandoned batch (taskId q)) (sync_queue w))) \<and>
     (0 < b \<and> i < length items \<and> batch = slice items i (i + b) \<longrightarrow>
        sync_loop e b items i (sc, ec, w) =
          sync_loop e b items (i + b) (sc, ec + length batch, w') \<and>
        (\<exists>st'. sync_loop e b items i (sc, ec, w) = Some st'))"
proof (intro impI, elim conjE)
  assume fail: "axios_post e (length (posted w)) (request_of batch) = Inl msg"
    and w': "w' = mark_batch_error e msg batch (w\<lparr>posted := posted w @ [request_of batch]\<rparr>)"
  let ?w1 = "w\<lparr>posted := posted w @ [request_of batch]\<rparr>"
  have A: "sync_batch e batch (sc, ec, w) = (sc, ec + length batch, w')"
    using sync_batch_transport_failure [OF fail] w' by simp
  have B: "sync_queue w' =
       filter (\<lambda>q. \<not> abandoned batch (taskId q)) (map (bump_all batch msg) (sync_queue w))"
    unfolding w' by (simp add: sync_queue_mark_batch_error)
  have C: "distinct (map id_item batch) \<longrightarrow>
        (\<forall>it \<in> set batch. \<forall>q. id_item q = id_item it \<longrightarrow>
           bump_all batch msg q = q\<lparr>retryCount := retryCount it + 1, lastError := Some msg\<rparr>)"
    using bump_all_member by blast
  have D: "distinct (map id_item (sync_queue w)) \<and> distinct (map id_item batch) \<and>
      set batch \<subseteq> set (sync_queue w) \<longrightarrow>
        sync_queue w' =
          map (\<lambda>q. if q \<in> set batch
                    then q\<lparr>retryCount := retryCount q + 1, lastError := Some msg\<rparr> else q)
            (filter (\<lambda>q. \<not> abandoned batch (taskId q)) (sync_queue w))"
    unfolding w' using sync_queue_mark_batch_error_rows [of ?w1 batch e msg] by simp
  have E: "0 < b \<and> i < length items \<and> batch = slice items i (i + b) \<longrightarrow>
        sync_loop e b items i (sc, ec, w) =
          sync_loop e b items (i + b) (sc, ec + length batch, w') \<and>
        (\<exists>st'. sync_loop e b items i (sc, ec, w) = Some st')"
  proof (intro impI, elim conjE)
    assume b: "0 < b" and i: "i < length items" and bt: "batch = slice items i (i + b)"
    have "sync_loop e b items i (sc, ec, w) =
          sync_loop e b items (i + b) (sync_batch e batch (sc, ec, w))"
      using b i bt by (subst sync_loop.simps) simp
    then show "sync_loop e b items i (sc, ec, w) =
          sync_loop e b items (i + b) (sc, ec + length batch, w') \<and>
        (\<exists>st'. sync_loop e b items i (sc, ec, w) = Some st')"
      using A sync_loop_returns [OF b] by simp
  qed
  from A B C D E show "sync_batch e batch (sc, ec, w) = (sc, ec + length batch, w') \<and>
     sync_queue w' =
       filter (\<lambda>q. \<not> abandoned batch (taskId q)) (map (bump_all batch msg) (sync_queue w)) \<and>
     (distinct (map id_item batch) \<longrightarrow>
        (\<forall>it \<in> set batch. \<forall>q. id_item q = id_item it \<longrightarrow>
           bump_all batch msg q = q\<lparr>retryCount := retryCount it + 1, lastError := Some msg\<rparr>)) \<and>
     (distinct (map id_item (sync_queue w)) \<and> distinct (map id_item batch) \<and>
      set batch \<subseteq> set (sync_queue w) \<longrightarrow>
        sync_queue w' =
          map (\<lambda>q. if q \<in> set batch
                    then q\<lparr>retryCount := retryCount q + 1, lastError := Some msg\<rparr> else q)
            (filter (\<lambda>q. \<not> abandoned batch (taskId q)) (sync_queue w))) \<and>
     (0 < b \<and> i < length items \<and> batch = slice items i (i + b) \<longrightarrow>
        sync_loop e b items i (sc, ec, w) =
          sync_loop e b items (i + b) (sc, ec + length batch, w') \<and>
        (\<exists>st'. sync_loop e b items i (sc, ec, w) = Some st'))"
    by blast
qed

theorem transport_failure_fails_whole_batch_witness:
  "axios_post env_down (length (posted world3)) (request_of [item1, item2, item3])
     = Inl ''Network Error'' \<and>
   (\<exists>w'. sync_batch env_down [item1, item2, item3] (0, 0, world3) = (0, 3, w') \<and>
      sync_queue w' =
        [item1\<lparr>retryCount := 1, lastError := Some ''Network Error''\<rparr>,
         item2\<lparr>retryCount := 1, lastError := Some ''Network Error''\<rparr>,
         item3\<lparr>retryCount := 1, lastError := Some ''Network Error''\<rparr>])"
proof -
  let ?batch = "[item1, item2, item3]"
  let ?w' = "mark_batch_error env_down ''Network Error'' ?batch
               (world3\<lparr>posted := posted world3 @ [request_of ?batch]\<rparr>)"
  have f: "axios_post env_down (length (posted world3)) (request_of ?batch) = Inl ''Network Error''"
    by (simp add: env_down_def)
  have q: "sync_queue world3 = ?batch" by (simp add: world3_def)
  have d: "distinct (map id_item ?batch)"
    by (simp add: item1_def item2_def item3_def)
  have r: "retryCount item1 = 0" "retryCount item2 = 0" "retryCount item3 = 0"
    by (simp_all add: item1_def item2_def item3_def)
  have na: "\<not> abandoned ?batch t" for t
    by (simp add: abandoned_def r)
  from f d q transport_failure_fails_whole_batch
    [of env_down world3 ?batch "''Network Error''" ?w' 0 0 10 0 ?batch]
  have "sync_batch env_down ?batch (0, 0, world3) = (0, 0 + length ?batch, ?w') \<and>
        sync_queue ?w' =
          map (\<lambda>q. if q \<in> set ?batch
                    then q\<lparr>retryCount := retryCount q + 1, lastError := Some ''Network Error''\<rparr>
                    else q)
            (filter (\<lambda>q. \<not> abandoned ?batch (taskId q)) (sync_queue world3))"
    by simp
  then show ?thesis using f by (simp add: na q r)
qed

section \<open>The retry counter\<close>
































end
